theory Spec2Isabelle
  imports Complex_Main "HOL-Library.Multiset"
begin

section \<open>JavaScript values\<close>

text \<open>
  The program is TypeScript running on JavaScript values. Strings are modelled as
  \<^typ>\<open>string\<close>, one \<^typ>\<open>char\<close> per UTF-16 code unit, so that only code units below
  U+0100 are representable. Numbers are IEEE doubles in the program; here a finite
  number is an exact real (no rounding, no overflow, no negative zero), and the three
  non-finite doubles are separate values.
\<close>

datatype jsnum = Fin real | PInf | NInf | NaN

text \<open>
  A property read \<open>obj[key]\<close> yields a number, a string, \<open>undefined\<close> for a missing
  key, or, for the member names of \<open>Object.prototype\<close>, the inherited member (a function
  or object), of which only the name is kept.
\<close>

datatype jsval = Num jsnum | Str string | Undefined | Inherited string

subsection \<open>Strings\<close>

text \<open>\<open>String.prototype.toLowerCase\<close> on code units below U+0100.\<close>

definition toLowerChar :: "char \<Rightarrow> char" where
  "toLowerChar c =
     (let n = (of_char c :: nat)
      in if (65 \<le> n \<and> n \<le> 90) \<or> (192 \<le> n \<and> n \<le> 214) \<or> (216 \<le> n \<and> n \<le> 222)
         then (case c of Char b0 b1 b2 b3 b4 b5 b6 b7 \<Rightarrow> Char b0 b1 b2 b3 b4 True b6 b7)
         else c)"

definition toLowerCase :: "string \<Rightarrow> string" where
  "toLowerCase s = map toLowerChar s"

definition isDigit :: "char \<Rightarrow> bool" where
  "isDigit c = (48 \<le> (of_char c :: nat) \<and> (of_char c :: nat) \<le> 57)"

definition digitVal :: "char \<Rightarrow> nat" where
  "digitVal c = (of_char c :: nat) - 48"

definition decimalValue :: "string \<Rightarrow> int" where
  "decimalValue s = foldl (\<lambda>a c. 10 * a + int (digitVal c)) 0 s"

definition isJsSpace :: "char \<Rightarrow> bool" where
  "isJsSpace c = ((of_char c :: nat) \<in> {9, 10, 11, 12, 13, 32, 160})"

text \<open>\<open>String.prototype.trim\<close>: white space and line terminators go from both ends.\<close>

definition trim :: "string \<Rightarrow> string" where
  "trim s = rev (dropWhile isJsSpace (rev (dropWhile isJsSpace s)))"

fun startsWith :: "string \<Rightarrow> string \<Rightarrow> bool" where
  "startsWith s [] = True"
| "startsWith [] (p # ps) = False"
| "startsWith (c # cs) (p # ps) = (c = p \<and> startsWith cs ps)"

text \<open>\<open>s.includes(t)\<close>: \<open>t\<close> occurs in \<open>s\<close> as a contiguous substring.\<close>

fun str_includes :: "string \<Rightarrow> string \<Rightarrow> bool" where
  "str_includes [] t = (t = [])"
| "str_includes (c # cs) t = (startsWith (c # cs) t \<or> str_includes cs t)"

text \<open>The order of \<open><\<close> on two strings: lexicographic on code units.\<close>

fun str_less :: "string \<Rightarrow> string \<Rightarrow> bool" where
  "str_less [] [] = False"
| "str_less [] (d # ds) = True"
| "str_less (c # cs) [] = False"
| "str_less (c # cs) (d # ds) =
     ((of_char c :: nat) < of_char d \<or> (c = d \<and> str_less cs ds))"

text \<open>Decimal digits of a natural number, as \<open>Number.prototype.toString\<close> prints them.\<close>

fun dec_digits :: "nat \<Rightarrow> string" where
  "dec_digits n =
     (if n < 10 then [''0123456789'' ! n]
      else dec_digits (n div 10) @ [''0123456789'' ! (n mod 10)])"

declare dec_digits.simps [simp del]

subsection \<open>Numbers\<close>

definition isNaN :: "jsnum \<Rightarrow> bool" where
  "isNaN x = (x = NaN)"

fun js_neg :: "jsnum \<Rightarrow> jsnum" where
  "js_neg (Fin a) = Fin (- a)"
| "js_neg PInf = NInf"
| "js_neg NInf = PInf"
| "js_neg NaN = NaN"

fun js_add :: "jsnum \<Rightarrow> jsnum \<Rightarrow> jsnum" where
  "js_add (Fin a) (Fin b) = Fin (a + b)"
| "js_add (Fin a) PInf = PInf"
| "js_add (Fin a) NInf = NInf"
| "js_add PInf (Fin b) = PInf"
| "js_add PInf PInf = PInf"
| "js_add PInf NInf = NaN"
| "js_add NInf (Fin b) = NInf"
| "js_add NInf NInf = NInf"
| "js_add NInf PInf = NaN"
| "js_add NaN y = NaN"
| "js_add x NaN = NaN"

definition js_sub :: "jsnum \<Rightarrow> jsnum \<Rightarrow> jsnum" where
  "js_sub x y = js_add x (js_neg y)"

text \<open>The sign of a number other than NaN: 1, -1 or 0.\<close>

fun js_sign :: "jsnum \<Rightarrow> int" where
  "js_sign (Fin a) = (if a > 0 then 1 else if a < 0 then - 1 else 0)"
| "js_sign PInf = 1"
| "js_sign NInf = - 1"
| "js_sign NaN = 0"

definition signed_inf :: "int \<Rightarrow> jsnum" where
  "signed_inf s = (if s = 0 then NaN else if s > 0 then PInf else NInf)"

fun js_mul :: "jsnum \<Rightarrow> jsnum \<Rightarrow> jsnum" where
  "js_mul (Fin a) (Fin b) = Fin (a * b)"
| "js_mul NaN y = NaN"
| "js_mul x NaN = NaN"
| "js_mul x y = signed_inf (js_sign x * js_sign y)"

text \<open>
  Division. A finite number over zero is an infinity (or NaN for 0/0); without a
  negative zero the divisor 0 counts as positive. The program never divides by zero.
\<close>

fun js_div :: "jsnum \<Rightarrow> jsnum \<Rightarrow> jsnum" where
  "js_div (Fin a) (Fin b) = (if b = 0 then signed_inf (js_sign (Fin a)) else Fin (a / b))"
| "js_div NaN y = NaN"
| "js_div x NaN = NaN"
| "js_div (Fin a) y = Fin 0"
| "js_div x (Fin b) = signed_inf (js_sign x * (if b < 0 then - 1 else 1))"
| "js_div x y = NaN"

fun js_sqrt :: "jsnum \<Rightarrow> jsnum" where
  "js_sqrt (Fin a) = (if a < 0 then NaN else Fin (sqrt a))"
| "js_sqrt PInf = PInf"
| "js_sqrt NInf = NaN"
| "js_sqrt NaN = NaN"

text \<open>\<open>Math.round\<close>: the nearest integer, a tie going up.\<close>

fun math_round :: "jsnum \<Rightarrow> jsnum" where
  "math_round (Fin a) = Fin (of_int \<lfloor>a + 1 / 2\<rfloor>)"
| "math_round x = x"

text \<open>
  \<open>Number(v.toFixed(2))\<close>: \<open>toFixed\<close> prints the sign and then the integer \<open>n\<close> nearest
  to \<open>100 * |v|\<close> (the larger one at a tie) with two decimals; from \<open>10\<^sup>2\<^sup>1\<close> on, and for
  the non-finite values, it prints the number as \<open>String\<close> does. Reading the string back
  gives the value below.
\<close>

fun toFixed2Number :: "jsnum \<Rightarrow> jsnum" where
  "toFixed2Number (Fin a) =
     (if \<bar>a\<bar> \<ge> 10 ^ 21 then Fin a
      else Fin ((if a < 0 then - 1 else 1) * of_int \<lfloor>\<bar>a\<bar> * 100 + 1 / 2\<rfloor> / 100))"
| "toFixed2Number x = x"


text \<open>\<open><\<close> on two numbers: \<open>None\<close> is the undefined result of a comparison with NaN.\<close>

fun num_less :: "jsnum \<Rightarrow> jsnum \<Rightarrow> bool option" where
  "num_less NaN y = None"
| "num_less x NaN = None"
| "num_less (Fin a) (Fin b) = Some (a < b)"
| "num_less x PInf = Some (x \<noteq> PInf)"
| "num_less PInf y = Some False"
| "num_less NInf y = Some (y \<noteq> NInf)"
| "num_less x NInf = Some False"

subsection \<open>Number(string)\<close>

text \<open>
  The StringNumericLiteral grammar: white space around an empty string (0), a hex, octal
  or binary integer, or a signed decimal literal (\<open>Infinity\<close>, digits with an optional
  fraction and exponent). Anything else is NaN. The value is exact.
\<close>

definition isHexDigit :: "char \<Rightarrow> bool" where
  "isHexDigit c =
     (let n = (of_char c :: nat)
      in (48 \<le> n \<and> n \<le> 57) \<or> (65 \<le> n \<and> n \<le> 70) \<or> (97 \<le> n \<and> n \<le> 102))"

definition hexVal :: "char \<Rightarrow> nat" where
  "hexVal c =
     (let n = (of_char c :: nat)
      in if n \<le> 57 then n - 48 else if n \<le> 70 then n - 55 else n - 87)"

definition radixValue :: "nat \<Rightarrow> string \<Rightarrow> nat" where
  "radixValue b s = foldl (\<lambda>a c. b * a + hexVal c) 0 s"

definition nonDecimalLiteral :: "string \<Rightarrow> nat option" where
  "nonDecimalLiteral t =
     (case t of
        z # r # ds \<Rightarrow>
          if z = CHR ''0'' \<and> ds \<noteq> [] then
            (if r \<in> {CHR ''x'', CHR ''X''} \<and> list_all isHexDigit ds
               then Some (radixValue 16 ds)
             else if r \<in> {CHR ''o'', CHR ''O''}
                     \<and> list_all (\<lambda>c. isDigit c \<and> (of_char c :: nat) \<le> 55) ds
               then Some (radixValue 8 ds)
             else if r \<in> {CHR ''b'', CHR ''B''}
                     \<and> list_all (\<lambda>c. c = CHR ''0'' \<or> c = CHR ''1'') ds
               then Some (radixValue 2 ds)
             else None)
          else None
      | _ \<Rightarrow> None)"

text \<open>The exponent part: empty, or \<open>e\<close>/\<open>E\<close>, an optional sign and at least one digit.\<close>

definition exponentPart :: "string \<Rightarrow> int option" where
  "exponentPart r =
     (case r of
        [] \<Rightarrow> Some 0
      | e # ds \<Rightarrow>
          if e = CHR ''e'' \<or> e = CHR ''E'' then
            (let neg = (ds \<noteq> [] \<and> hd ds = CHR ''-'');
                 digs = (if ds \<noteq> [] \<and> (hd ds = CHR ''+'' \<or> hd ds = CHR ''-'') then tl ds else ds)
             in if digs \<noteq> [] \<and> list_all isDigit digs
                then Some (if neg then - decimalValue digs else decimalValue digs)
                else None)
          else None)"

definition unsignedDecimal :: "string \<Rightarrow> real option" where
  "unsignedDecimal u =
     (let ip = takeWhile isDigit u;
          r1 = dropWhile isDigit u;
          dot = (r1 \<noteq> [] \<and> hd r1 = CHR ''.'');
          fp = (if dot then takeWhile isDigit (tl r1) else []);
          r2 = (if dot then dropWhile isDigit (tl r1) else r1)
      in if ip = [] \<and> fp = [] then None
         else (case exponentPart r2 of
                 None \<Rightarrow> None
               | Some e \<Rightarrow>
                   (let m = real_of_int (decimalValue ip) + real_of_int (decimalValue fp) / 10 ^ length fp
                    in Some (if e \<ge> 0 then m * 10 ^ nat e else m / 10 ^ nat (- e)))))"

definition strDecimalLiteral :: "string \<Rightarrow> jsnum" where
  "strDecimalLiteral t =
     (let neg = (t \<noteq> [] \<and> hd t = CHR ''-'');
          u = (if t \<noteq> [] \<and> (hd t = CHR ''+'' \<or> hd t = CHR ''-'') then tl t else t)
      in if u = ''Infinity'' then (if neg then NInf else PInf)
         else (case unsignedDecimal u of
                 None \<Rightarrow> NaN
               | Some v \<Rightarrow> Fin (if neg then - v else v)))"

definition stringToNumber :: "string \<Rightarrow> jsnum" where
  "stringToNumber s =
     (let t = trim s
      in if t = [] then Fin 0
         else (case nonDecimalLiteral t of
                 Some n \<Rightarrow> Fin (real n)
               | None \<Rightarrow> strDecimalLiteral t))"

subsection \<open>Conversions\<close>

text \<open>
  What the host prints is a parameter where the model cannot compute it: the text of a
  finite number that is not an integer below \<open>10\<^sup>2\<^sup>1\<close>, and the text of an inherited
  member of \<open>Object.prototype\<close>.
\<close>

record host =
  frac_str :: "real \<Rightarrow> string"
  proto_str :: "string \<Rightarrow> string"

definition numberToString :: "host \<Rightarrow> jsnum \<Rightarrow> string" where
  "numberToString h x =
     (case x of
        NaN \<Rightarrow> ''NaN''
      | PInf \<Rightarrow> ''Infinity''
      | NInf \<Rightarrow> ''-Infinity''
      | Fin a \<Rightarrow>
          if a = of_int \<lfloor>a\<rfloor> \<and> \<bar>a\<bar> < 10 ^ 21
          then (if a < 0 then ''-'' else []) @ dec_digits (nat \<bar>\<lfloor>a\<rfloor>\<bar>)
          else frac_str h a)"

text \<open>\<open>String(v)\<close>.\<close>

definition toString :: "host \<Rightarrow> jsval \<Rightarrow> string" where
  "toString h v =
     (case v of
        Num x \<Rightarrow> numberToString h x
      | Str s \<Rightarrow> s
      | Undefined \<Rightarrow> ''undefined''
      | Inherited k \<Rightarrow> proto_str h k)"

text \<open>\<open>Number(v)\<close>; an inherited function or object converts to NaN.\<close>

definition toNumber :: "jsval \<Rightarrow> jsnum" where
  "toNumber v =
     (case v of
        Num x \<Rightarrow> x
      | Str s \<Rightarrow> stringToNumber s
      | Undefined \<Rightarrow> NaN
      | Inherited k \<Rightarrow> NaN)"

text \<open>ToPrimitive: an inherited function or object becomes its text.\<close>

definition toPrimitive :: "host \<Rightarrow> jsval \<Rightarrow> jsval" where
  "toPrimitive h v = (case v of Inherited k \<Rightarrow> Str (proto_str h k) | _ \<Rightarrow> v)"

definition isString :: "jsval \<Rightarrow> bool" where
  "isString v = (case v of Str s \<Rightarrow> True | _ \<Rightarrow> False)"

text \<open>\<open>typeof v === 'number'\<close>.\<close>

definition isNumber :: "jsval \<Rightarrow> bool" where
  "isNumber v = (case v of Num x \<Rightarrow> True | _ \<Rightarrow> False)"

text \<open>
  The operator \<open>+\<close>: concatenation when either operand is a string after ToPrimitive,
  addition of the operands' numbers otherwise.
\<close>

definition js_plus :: "host \<Rightarrow> jsval \<Rightarrow> jsval \<Rightarrow> jsval" where
  "js_plus h a b =
     (let pa = toPrimitive h a; pb = toPrimitive h b
      in if isString pa \<or> isString pb then Str (toString h pa @ toString h pb)
         else Num (js_add (toNumber pa) (toNumber pb)))"

text \<open>The operators \<open>*\<close>, \<open>-\<close> and \<open>/\<close> convert both operands to numbers.\<close>

definition js_times :: "jsval \<Rightarrow> jsval \<Rightarrow> jsval" where
  "js_times a b = Num (js_mul (toNumber a) (toNumber b))"

definition js_minus :: "jsval \<Rightarrow> jsval \<Rightarrow> jsval" where
  "js_minus a b = Num (js_sub (toNumber a) (toNumber b))"

definition js_divide :: "jsval \<Rightarrow> jsval \<Rightarrow> jsval" where
  "js_divide a b = Num (js_div (toNumber a) (toNumber b))"

text \<open>
  The comparison \<open>a < b\<close>: two strings compare as strings, anything else as numbers;
  \<open>None\<close> is the undefined result, which every relational operator turns into false.
\<close>

definition js_less :: "host \<Rightarrow> jsval \<Rightarrow> jsval \<Rightarrow> bool option" where
  "js_less h a b =
     (case (toPrimitive h a, toPrimitive h b) of
        (Str s, Str t) \<Rightarrow> Some (str_less s t)
      | (pa, pb) \<Rightarrow> num_less (toNumber pa) (toNumber pb))"

definition js_lt :: "host \<Rightarrow> jsval \<Rightarrow> jsval \<Rightarrow> bool" where
  "js_lt h a b = (js_less h a b = Some True)"

definition js_gt :: "host \<Rightarrow> jsval \<Rightarrow> jsval \<Rightarrow> bool" where
  "js_gt h a b = (js_less h b a = Some True)"

definition js_le :: "host \<Rightarrow> jsval \<Rightarrow> jsval \<Rightarrow> bool" where
  "js_le h a b = (js_less h b a = Some False)"

definition js_ge :: "host \<Rightarrow> jsval \<Rightarrow> jsval \<Rightarrow> bool" where
  "js_ge h a b = (js_less h a b = Some False)"

subsection \<open>Plain objects\<close>

text \<open>
  A plain object is the list of its own properties in insertion order.
  \<open>Object.keys\<close> and \<open>Object.entries\<close> enumerate the array-index keys first, in
  ascending numeric order, and then the other keys in insertion order.
\<close>

type_synonym jsobject = "(string \<times> jsval) list"

definition isArrayIndex :: "string \<Rightarrow> bool" where
  "isArrayIndex s =
     (s \<noteq> [] \<and> list_all isDigit s \<and> (s = ''0'' \<or> hd s \<noteq> CHR ''0'')
      \<and> decimalValue s \<le> 4294967294)"

definition ownEntries :: "(string \<times> 'a) list \<Rightarrow> (string \<times> 'a) list" where
  "ownEntries obj =
     sort_key (\<lambda>kv. decimalValue (fst kv)) (filter (\<lambda>kv. isArrayIndex (fst kv)) obj)
     @ filter (\<lambda>kv. \<not> isArrayIndex (fst kv)) obj"

definition object_keys :: "(string \<times> 'a) list \<Rightarrow> string list" where
  "object_keys obj = map fst (ownEntries obj)"

text \<open>The member names every plain object inherits from \<open>Object.prototype\<close>.\<close>

definition objectPrototypeNames :: "string list" where
  "objectPrototypeNames =
     [''constructor'', ''__defineGetter__'', ''__defineSetter__'', ''hasOwnProperty'',
      ''__lookupGetter__'', ''__lookupSetter__'', ''isPrototypeOf'',
      ''propertyIsEnumerable'', ''toString'', ''valueOf'', ''__proto__'',
      ''toLocaleString'']"

text \<open>The read \<open>obj[key]\<close> on a row.\<close>

definition obj_get :: "jsobject \<Rightarrow> string \<Rightarrow> jsval" where
  "obj_get obj k =
     (case map_of obj k of
        Some v \<Rightarrow> v
      | None \<Rightarrow> if k \<in> set objectPrototypeNames then Inherited k else Undefined)"

text \<open>
  Defining an own property, as an object literal with computed keys does: a key already
  there keeps its place and takes the new value.
\<close>

definition obj_define :: "(string \<times> 'a) list \<Rightarrow> string \<Rightarrow> 'a \<Rightarrow> (string \<times> 'a) list" where
  "obj_define obj k v =
     (if k \<in> fst ` set obj then map (\<lambda>kv. if fst kv = k then (k, v) else kv) obj
      else obj @ [(k, v)])"

text \<open>
  The assignment \<open>obj[key] = value\<close> of a number or string: the key \<open>__proto__\<close> is the
  prototype accessor, which ignores such a value.
\<close>

definition obj_set :: "jsobject \<Rightarrow> string \<Rightarrow> jsval \<Rightarrow> jsobject" where
  "obj_set obj k v = (if k = ''__proto__'' then obj else obj_define obj k v)"

section \<open>Data model (types.ts)\<close>

datatype ChartType = BAR | LINE | SCATTER | PIE | AREA

record ChartConfig =
  chart_id :: string
  chart_type :: ChartType
  title :: string
  description :: string
  xKey :: string
  yKey :: string
  categoryKey :: "string option"

datatype ColumnType = numeric | categorical | datetime | text_type

record ColumnProfile =
  col_name :: string
  col_type :: ColumnType
  missingCount :: nat
  uniqueCount :: nat
  exampleValues :: "string list"

record AnalysisResult =
  summary :: string
  columns :: "ColumnProfile list"
  recommendedCharts :: "ChartConfig list"
  insights :: "string list"

record Dataset =
  ds_id :: string
  ds_name :: string
  data :: "jsobject list"
  rowCount :: nat

record CorrelationMatrix =
  variables :: "string list"
  matrix :: "jsnum list list"

datatype IntentType = query | chat | clarification

text \<open>The aggregate kinds \<open>'SUM' | 'AVG' | 'COUNT' | 'COUNT_DISTINCT'\<close>.\<close>

datatype AggregateType = AggSUM | AggAVG | AggCOUNT | AggCOUNT_DISTINCT

text \<open>
  A filter's operator is declared as one of six strings but arrives from the external
  service, and \<open>queryData\<close> has a default branch for any other string.
\<close>

record QueryFilter =
  column :: string
  operator :: string
  filter_value :: jsval

record QueryIntent =
  intent_type :: IntentType
  filters :: "QueryFilter list option"
  groupBy :: "string option"
  aggregateColumn :: "string option"
  aggregateType :: "AggregateType option"
  chartType :: "ChartType option"
  textResponse :: "string option"
  intent_title :: "string option"

datatype js_error = TypeError | Error string

section \<open>Tabular ingestion (dataService.ts)\<close>

text \<open>\<open>s.split(/\r\n|\n/)\<close>: a line ends at CR LF or at LF; a lone CR stays in its line.\<close>

fun splitLines :: "string \<Rightarrow> string list" where
  "splitLines [] = [[]]"
| "splitLines (c # cs) =
     (if c = CHR 0x0A then [] # splitLines cs
      else if c = CHR 0x0D \<and> cs \<noteq> [] \<and> hd cs = CHR 0x0A then [] # splitLines (tl cs)
      else (case splitLines cs of
              l # ls \<Rightarrow> (c # l) # ls
            | [] \<Rightarrow> [[c]]))"

text \<open>\<open>s.split(',')\<close>: the pieces between commas, at least one.\<close>

fun splitComma :: "string \<Rightarrow> string list" where
  "splitComma [] = [[]]"
| "splitComma (c # cs) =
     (if c = CHR '','' then [] # splitComma cs
      else (case splitComma cs of
              l # ls \<Rightarrow> (c # l) # ls
            | [] \<Rightarrow> [[c]]))"

text \<open>
  \<open>s.replace(/^"|"$/g, '')\<close>: a double quote at the start goes, and a double quote at
  the end goes unless it is that same character.
\<close>

definition stripQuotes :: "string \<Rightarrow> string" where
  "stripQuotes s =
     (let r = (if s \<noteq> [] \<and> hd s = CHR 0x22 then tl s else s)
      in if r \<noteq> [] \<and> last r = CHR 0x22 then butlast r else r)"

text \<open>\<open>s.charCodeAt(0)\<close>; \<open>None\<close> is the NaN of the empty string.\<close>

definition charCodeAt0 :: "string \<Rightarrow> nat option" where
  "charCodeAt0 s = (case s of [] \<Rightarrow> None | c # cs \<Rightarrow> Some (of_char c))"

definition csvLines :: "string \<Rightarrow> string list" where
  "csvLines csvText = filter (\<lambda>line. trim line \<noteq> []) (splitLines csvText)"

text \<open>
  The header row, with the byte order mark taken off the first header. The mark is the
  code unit U+FEFF, which a \<^typ>\<open>char\<close> cannot hold, so the test is never true here.
\<close>

definition csvHeaders :: "string list \<Rightarrow> string list" where
  "csvHeaders lines =
     (let headers = map (\<lambda>h. stripQuotes (trim h)) (splitComma (hd lines))
      in if length headers > 0 \<and> charCodeAt0 (hd headers) = Some 0xFEFF
         then tl (hd headers) # tl headers
         else headers)"

text \<open>The value of one cell: the field trimmed, without its quotes, as a number if it is one.\<close>

definition parseCell :: "string \<Rightarrow> jsval" where
  "parseCell field =
     (let v = stripQuotes (trim field)
      in if \<not> isNaN (stringToNumber v) \<and> v \<noteq> [] then Num (stringToNumber v) else Str v)"

text \<open>
  The row of an accepted line: \<open>row[header] = value\<close> for each header in turn. The line
  has as many fields as there are headers.
\<close>

definition buildRow :: "string list \<Rightarrow> string list \<Rightarrow> jsobject" where
  "buildRow headers currentLine =
     foldl (\<lambda>row hf. obj_set row (fst hf) (parseCell (snd hf))) [] (zip headers currentLine)"

fun parseRows :: "string list \<Rightarrow> string list \<Rightarrow> jsobject list \<Rightarrow> jsobject list" where
  "parseRows headers [] acc = acc"
| "parseRows headers (line # lines) acc =
     (let currentLine = splitComma line
      in if length currentLine = length headers
         then parseRows headers lines (acc @ [buildRow headers currentLine])
         else parseRows headers lines acc)"

text \<open>\<open>parseCSV\<close>; the identifier that \<open>crypto.randomUUID()\<close> draws is a parameter.\<close>

definition parseCSV :: "string \<Rightarrow> string \<Rightarrow> string \<Rightarrow> js_error + Dataset" where
  "parseCSV uuid csvText fileName =
     (let lines = csvLines csvText
      in if length lines = 0 then Inl (Error ''File is empty'')
         else
           (let headers = csvHeaders lines;
                rows = parseRows headers (tl lines) [];
                limitedData = take 3000 rows
            in Inr \<lparr> ds_id = uuid, ds_name = fileName, data = limitedData,
                     rowCount = length rows \<rparr>))"

text \<open>
  The accepted data lines in the words of the specification: the non-blank lines after
  the header whose field count equals the header count.
\<close>

definition acceptedLines :: "string \<Rightarrow> string list" where
  "acceptedLines csvText =
     filter (\<lambda>line. length (splitComma line) = length (csvHeaders (csvLines csvText)))
       (tl (csvLines csvText))"

section \<open>Correlation engine (dataService.ts)\<close>

text \<open>An array read \<open>y[i]\<close>: \<open>undefined\<close> out of range.\<close>

definition js_index :: "jsval list \<Rightarrow> nat \<Rightarrow> jsval" where
  "js_index ys i = (if i < length ys then ys ! i else Undefined)"

text \<open>\<open>Array.prototype.reduce\<close> with a callback that also takes the index.\<close>

fun reduce_indexed :: "('a \<Rightarrow> 'b \<Rightarrow> nat \<Rightarrow> 'a) \<Rightarrow> 'a \<Rightarrow> 'b list \<Rightarrow> nat \<Rightarrow> 'a" where
  "reduce_indexed f a [] i = a"
| "reduce_indexed f a (b # bs) i = reduce_indexed f (f a b i) bs (Suc i)"

text \<open>
  \<open>calculatePearson\<close>. The arrays are declared \<open>number[]\<close> but hold whatever the rows
  hold (the cast \<open>as number\<close> converts nothing), so the sums run on values.
\<close>

definition calculatePearson :: "host \<Rightarrow> jsval list \<Rightarrow> jsval list \<Rightarrow> jsnum" where
  "calculatePearson h x y =
     (let n = length x
      in if n = 0 then Fin 0
         else
           (let sumX = foldl (js_plus h) (Num (Fin 0)) x;
                sumY = foldl (js_plus h) (Num (Fin 0)) y;
                sumXY = reduce_indexed (\<lambda>a b i. js_plus h a (js_times b (js_index y i)))
                          (Num (Fin 0)) x 0;
                sumX2 = foldl (\<lambda>a b. js_plus h a (js_times b b)) (Num (Fin 0)) x;
                sumY2 = foldl (\<lambda>a b. js_plus h a (js_times b b)) (Num (Fin 0)) y;
                nv = Num (Fin (real n));
                numerator = js_minus (js_times nv sumXY) (js_times sumX sumY);
                denominator =
                  js_sqrt (toNumber
                    (js_times (js_minus (js_times nv sumX2) (js_times sumX sumX))
                              (js_minus (js_times nv sumY2) (js_times sumY sumY))))
            in if denominator = Fin 0 then Fin 0
               else toFixed2Number (toNumber (js_divide numerator (Num denominator)))))"

definition numericColumnsOf :: "jsobject list \<Rightarrow> string list \<Rightarrow> string list" where
  "numericColumnsOf rows cols =
     filter (\<lambda>col. list_all (\<lambda>row. isNumber (obj_get row col)) (take 50 rows)) cols"

definition calculateCorrelations :: "host \<Rightarrow> jsobject list \<Rightarrow> string list \<Rightarrow> CorrelationMatrix" where
  "calculateCorrelations h rows cols =
     (let numericColumns = numericColumnsOf rows cols;
          k = length numericColumns
      in \<lparr> variables = numericColumns,
           matrix =
             map (\<lambda>i. map (\<lambda>j. if i = j then Fin 1
                                else calculatePearson h
                                       (map (\<lambda>d. obj_get d (numericColumns ! i)) rows)
                                       (map (\<lambda>d. obj_get d (numericColumns ! j)) rows))
                         [0..<k])
                 [0..<k] \<rparr>)"

text \<open>
  The caller, \<open>CorrelationHeatmap\<close> (CorrelationHeatmap.tsx): it passes the names of the
  columns profiled as numeric and renders a placeholder when fewer than two variables
  come back, the matrix otherwise.
\<close>

datatype HeatmapView = NotEnoughNumericData | MatrixView "string list" "jsnum list list"

definition CorrelationHeatmap :: "host \<Rightarrow> jsobject list \<Rightarrow> ColumnProfile list \<Rightarrow> HeatmapView" where
  "CorrelationHeatmap h rows profiles =
     (let numericCols = map col_name (filter (\<lambda>c. col_type c = numeric) profiles);
          correlationData = calculateCorrelations h rows numericCols
      in if length (variables correlationData) < 2 then NotEnoughNumericData
         else MatrixView (variables correlationData) (matrix correlationData))"







section \<open>Query engine (dataService.ts)\<close>

subsection \<open>Stage 1: filter\<close>

definition filterPasses :: "host \<Rightarrow> jsobject \<Rightarrow> QueryFilter \<Rightarrow> bool" where
  "filterPasses h row f =
     (let rowVal = obj_get row (column f);
          filterVal = filter_value f
      in if operator f = ''=='' then
           toLowerCase (toString h rowVal) = toLowerCase (toString h filterVal)
         else if operator f = ''>'' then js_gt h rowVal filterVal
         else if operator f = ''<'' then js_lt h rowVal filterVal
         else if operator f = ''>='' then js_ge h rowVal filterVal
         else if operator f = ''<='' then js_le h rowVal filterVal
         else if operator f = ''contains'' then
           str_includes (toLowerCase (toString h rowVal)) (toLowerCase (toString h filterVal))
         else True)"

definition applyFilters :: "host \<Rightarrow> QueryIntent \<Rightarrow> jsobject list \<Rightarrow> jsobject list" where
  "applyFilters h intent rows =
     (case filters intent of
        None \<Rightarrow> rows
      | Some fs \<Rightarrow>
          if length fs > 0 then filter (\<lambda>row. list_all (filterPasses h row) fs) rows
          else rows)"

subsection \<open>Stage 2: group and aggregate\<close>

text \<open>\<open>Number(v) || 0\<close>: NaN and zero are falsy.\<close>

definition coerceNumber :: "jsval \<Rightarrow> jsnum" where
  "coerceNumber v = (let n = toNumber v in if n = NaN \<or> n = Fin 0 then Fin 0 else n)"

text \<open>
  \<open>if (!groups[key]) groups[key] = []; groups[key].push(val)\<close> on the plain object
  \<open>groups\<close>: an own array is extended; a missing key gets a new array; a key that names
  a member of \<open>Object.prototype\<close> reads that member, which is truthy and has no
  \<open>push\<close>, so the call throws.
\<close>

definition pushGroup ::
  "(string \<times> jsnum list) list \<Rightarrow> string \<Rightarrow> jsnum \<Rightarrow> js_error + (string \<times> jsnum list) list" where
  "pushGroup groups key val =
     (case map_of groups key of
        Some vs \<Rightarrow> Inr (obj_define groups key (vs @ [val]))
      | None \<Rightarrow>
          if key \<in> set objectPrototypeNames then Inl TypeError
          else Inr (groups @ [(key, [val])]))"

fun collectGroups ::
  "host \<Rightarrow> string \<Rightarrow> string \<Rightarrow> jsobject list \<Rightarrow> (string \<times> jsnum list) list
     \<Rightarrow> js_error + (string \<times> jsnum list) list" where
  "collectGroups h g a [] groups = Inr groups"
| "collectGroups h g a (row # rows) groups =
     (case pushGroup groups (toString h (obj_get row g)) (coerceNumber (obj_get row a)) of
        Inl e \<Rightarrow> Inl e
      | Inr groups' \<Rightarrow> collectGroups h g a rows groups')"

definition aggregate :: "AggregateType \<Rightarrow> jsnum list \<Rightarrow> jsnum" where
  "aggregate t vals =
     (case t of
        AggSUM \<Rightarrow> foldl js_add (Fin 0) vals
      | AggAVG \<Rightarrow> js_div (foldl js_add (Fin 0) vals) (Fin (real (length vals)))
      | AggCOUNT \<Rightarrow> Fin (real (length vals))
      | AggCOUNT_DISTINCT \<Rightarrow> Fin (real (length (remdups vals))))"

text \<open>\<open>Math.round(v * 100) / 100\<close>.\<close>

definition roundTo2 :: "jsnum \<Rightarrow> jsnum" where
  "roundTo2 v = js_div (math_round (js_mul v (Fin 100))) (Fin 100)"

text \<open>The output row \<open>{[groupBy]: key, [aggregateColumn]: rounded}\<close>.\<close>

definition groupRow :: "string \<Rightarrow> string \<Rightarrow> AggregateType \<Rightarrow> string \<times> jsnum list \<Rightarrow> jsobject" where
  "groupRow g a t kv =
     obj_define (obj_define [] g (Str (fst kv))) a (Num (roundTo2 (aggregate t (snd kv))))"

subsection \<open>Stage 3: sort\<close>

text \<open>
  \<open>Array.prototype.sort\<close> is stable; a comparator result above zero puts the first
  argument after the second, and NaN counts as zero. For a consistent comparator the
  result is that of a stable insertion sort, which is the model; with an inconsistent
  one (NaN among the compared numbers) the order is left to the implementation.
\<close>

definition isPositive :: "jsnum \<Rightarrow> bool" where
  "isPositive v = (case v of Fin a \<Rightarrow> a > 0 | PInf \<Rightarrow> True | _ \<Rightarrow> False)"

fun insertBy :: "('a \<Rightarrow> 'a \<Rightarrow> jsnum) \<Rightarrow> 'a \<Rightarrow> 'a list \<Rightarrow> 'a list" where
  "insertBy cmp x [] = [x]"
| "insertBy cmp x (y # ys) = (if isPositive (cmp x y) then y # insertBy cmp x ys else x # y # ys)"

definition js_sort :: "('a \<Rightarrow> 'a \<Rightarrow> jsnum) \<Rightarrow> 'a list \<Rightarrow> 'a list" where
  "js_sort cmp xs = foldr (insertBy cmp) xs []"

text \<open>The comparator \<open>(a, b) => b[aggregateColumn] - a[aggregateColumn]\<close>.\<close>

definition descendingBy :: "string \<Rightarrow> jsobject \<Rightarrow> jsobject \<Rightarrow> jsnum" where
  "descendingBy a x y = js_sub (toNumber (obj_get y a)) (toNumber (obj_get x a))"

subsection \<open>The engine\<close>

text \<open>
  \<open>intent.groupBy && intent.aggregateColumn && intent.aggregateType\<close>: an absent or
  empty column name is falsy; the four aggregate kinds are non-empty strings.
\<close>

definition queryData :: "host \<Rightarrow> jsobject list \<Rightarrow> QueryIntent \<Rightarrow> js_error + jsobject list" where
  "queryData h rows intent =
     (let result = applyFilters h intent rows
      in case (groupBy intent, aggregateColumn intent, aggregateType intent) of
           (Some g, Some a, Some t) \<Rightarrow>
             if g \<noteq> [] \<and> a \<noteq> [] then
               (case collectGroups h g a result [] of
                  Inl e \<Rightarrow> Inl e
                | Inr groups \<Rightarrow>
                    Inr (take 50 (js_sort (descendingBy a)
                                    (map (groupRow g a t) (ownEntries groups)))))
             else Inr (take 50 result)
         | _ \<Rightarrow> Inr (take 50 result))"

subsection \<open>The aggregate stage in the words of the specification\<close>

text \<open>
  The group key of a row is the string form of its group-by value; the value it adds
  to its group is the number in the aggregate column, 0 when there is none.
\<close>

definition groupKey :: "host \<Rightarrow> string \<Rightarrow> jsobject \<Rightarrow> string" where
  "groupKey h g row = toString h (obj_get row g)"






section \<open>Result reconciliation (App.tsx)\<close>

text \<open>
  \<open>findKey\<close>: a falsy (empty) key is returned as it is; an exact member of
  \<open>validKeys\<close> is returned; otherwise \<open>Array.prototype.find\<close> gives the first valid key
  equal under \<open>toLowerCase\<close>, and \<open>match || key\<close> falls back to the key.
\<close>

definition findKey :: "string list \<Rightarrow> string \<Rightarrow> string" where
  "findKey validKeys key =
     (if key = [] then key
      else if key \<in> set validKeys then key
      else (case find (\<lambda>k. toLowerCase k = toLowerCase key) validKeys of
              Some match \<Rightarrow> if match \<noteq> [] then match else key
            | None \<Rightarrow> key))"

definition sanitizeChart :: "string list \<Rightarrow> ChartConfig \<Rightarrow> ChartConfig" where
  "sanitizeChart validKeys chart =
     chart\<lparr> xKey := findKey validKeys (xKey chart),
            yKey := findKey validKeys (yKey chart),
            categoryKey := (case categoryKey chart of
                              None \<Rightarrow> None
                            | Some k \<Rightarrow> if k \<noteq> [] then Some (findKey validKeys k) else None) \<rparr>"

definition sanitizeAnalysisResult :: "AnalysisResult \<Rightarrow> Dataset \<Rightarrow> AnalysisResult" where
  "sanitizeAnalysisResult result dataset =
     (case data dataset of
        [] \<Rightarrow> result
      | row0 # _ \<Rightarrow>
          (let validKeys = object_keys row0;
               sanitizedCharts =
                 filter (\<lambda>chart. xKey chart \<in> set validKeys \<and> yKey chart \<in> set validKeys)
                   (map (sanitizeChart validKeys) (recommendedCharts result))
           in result\<lparr> recommendedCharts := sanitizedCharts \<rparr>))"

text \<open>
  The resolution rule in the words of the specification: an exact match wins, else the
  first case-insensitive match, else the name as given.
\<close>

definition spec_resolve :: "string list \<Rightarrow> string \<Rightarrow> string" where
  "spec_resolve validKeys key =
     (if key \<in> set validKeys then key
      else (case find (\<lambda>k. toLowerCase k = toLowerCase key) validKeys of
              Some match \<Rightarrow> match
            | None \<Rightarrow> key))"

section \<open>Concrete inputs\<close>

text \<open>
  A host that prints nothing where the model leaves the text to the host. It serves to
  evaluate concrete inputs, none of which prints a non-integer number or an inherited
  member.
\<close>

definition blank_host :: host where
  "blank_host = \<lparr> frac_str = (\<lambda>a. []), proto_str = (\<lambda>k. []) \<rparr>"


text \<open>The specification's example: sum of \<open>v\<close> by \<open>cat\<close>.\<close>

definition intent_sum_v_by_cat :: QueryIntent where
  "intent_sum_v_by_cat =
     \<lparr> intent_type = query, filters = Some [], groupBy = Some ''cat'',
       aggregateColumn = Some ''v'', aggregateType = Some AggSUM, chartType = None,
       textResponse = None, intent_title = None \<rparr>"



text \<open>A row whose category is the text constructor.\<close>

definition rows_constructor :: "jsobject list" where
  "rows_constructor = [[(''cat'', Str ''constructor''), (''v'', Num (Fin 1))]]"


text \<open>A header line, two data lines with two fields and one with a single field.\<close>

definition csv_example :: string where
  "csv_example = ''a,b\<newline>1,2\<newline>3\<newline>4,5''"

section \<open>Reconciliation: proofs\<close>

lemma toLowerCase_Nil_iff: "toLowerCase k = [] \<longleftrightarrow> k = []"
  by (simp add: toLowerCase_def)

lemma findKey_spec_resolve: "findKey validKeys key = spec_resolve validKeys key"
proof (cases "key = []")
  case True
  have "find (\<lambda>k. toLowerCase k = toLowerCase []) validKeys = Some m \<Longrightarrow> m = []" for m
    by (auto simp: find_Some_iff toLowerCase_def)
  with True show ?thesis
    by (auto simp: findKey_def spec_resolve_def split: option.splits)
next
  case False
  have "find (\<lambda>k. toLowerCase k = toLowerCase key) validKeys = Some m \<Longrightarrow> m \<noteq> []" for m
    using False by (auto simp: find_Some_iff toLowerCase_def)
  with False show ?thesis
    by (auto simp: findKey_def spec_resolve_def split: option.splits)
qed

text \<open>
  C1 (amendment). For a dataset with at least one row, every chart config has its xKey,
  yKey and non-empty categoryKey resolved against the keys of the first row: an exact
  match is kept, otherwise the first key equal under toLowerCase is substituted,
  otherwise the name is kept; nothing is trimmed. An empty categoryKey becomes absent.
  A config stays in the output exactly when its resolved xKey and yKey are both keys of
  the first row, whatever its categoryKey. "Region" resolves to "region".
\<close>

theorem sanitizeAnalysisResult_reconciles:
  assumes "data dataset = row0 # rest"
  shows "recommendedCharts (sanitizeAnalysisResult result dataset) =
           filter (\<lambda>c. xKey c \<in> set (object_keys row0) \<and> yKey c \<in> set (object_keys row0))
             (map (\<lambda>c. c\<lparr> xKey := spec_resolve (object_keys row0) (xKey c),
                           yKey := spec_resolve (object_keys row0) (yKey c),
                           categoryKey :=
                             (case categoryKey c of
                                None \<Rightarrow> None
                              | Some k \<Rightarrow> if k = [] then None
                                          else Some (spec_resolve (object_keys row0) k)) \<rparr>)
                (recommendedCharts result))
         \<and> findKey [''region''] ''Region'' = ''region''"
proof -
  have h: "sanitizeChart vk =
          (\<lambda>c. c\<lparr> xKey := spec_resolve vk (xKey c), yKey := spec_resolve vk (yKey c),
             categoryKey := (case categoryKey c of None \<Rightarrow> None
                             | Some k \<Rightarrow> if k = [] then None else Some (spec_resolve vk k)) \<rparr>)"
    for vk
    by (rule ext) (simp add: sanitizeChart_def findKey_spec_resolve split: option.splits)
  have "findKey [''region''] ''Region'' = ''region''"
    by (simp add: findKey_def toLowerCase_def toLowerChar_def)
  then show ?thesis
    using assms by (simp add: sanitizeAnalysisResult_def Let_def h)
qed

theorem sanitizeAnalysisResult_reconciles_witness:
  "recommendedCharts
     (sanitizeAnalysisResult
        \<lparr> summary = [], columns = [],
          recommendedCharts =
            [\<lparr> chart_id = ''c1'', chart_type = BAR, title = [], description = [],
               xKey = ''Region'', yKey = ''SALES'', categoryKey = Some ''year'' \<rparr>,
             \<lparr> chart_id = ''c2'', chart_type = PIE, title = [], description = [],
               xKey = ''region'', yKey = ''profit'', categoryKey = None \<rparr>],
          insights = [] \<rparr>
        \<lparr> ds_id = [], ds_name = [],
          data = [[(''region'', Str ''West''), (''sales'', Num (Fin 3))]], rowCount = 1 \<rparr>)
   = [\<lparr> chart_id = ''c1'', chart_type = BAR, title = [], description = [],
        xKey = ''region'', yKey = ''sales'', categoryKey = Some ''year'' \<rparr>]"
  using sanitizeAnalysisResult_reconciles
    [of "\<lparr> ds_id = [], ds_name = [],
           data = [[(''region'', Str ''West''), (''sales'', Num (Fin 3))]], rowCount = 1 \<rparr>"
        "[(''region'', Str ''West''), (''sales'', Num (Fin 3))]" "[]"
        "\<lparr> summary = [], columns = [],
          recommendedCharts =
            [\<lparr> chart_id = ''c1'', chart_type = BAR, title = [], description = [],
               xKey = ''Region'', yKey = ''SALES'', categoryKey = Some ''year'' \<rparr>,
             \<lparr> chart_id = ''c2'', chart_type = PIE, title = [], description = [],
               xKey = ''region'', yKey = ''profit'', categoryKey = None \<rparr>],
          insights = [] \<rparr>"]
  by (simp add: spec_resolve_def object_keys_def ownEntries_def isArrayIndex_def isDigit_def
        toLowerCase_def toLowerChar_def)

text \<open>
  C1 as stated fails on the trailing space: "Region " is compared in full, is not equal
  to "region" under toLowerCase, stays unresolved, and its config is dropped.
\<close>

theorem sanitizeAnalysisResult_trailing_space_counterexample:
  "findKey (object_keys [(''region'', Str ''West'')]) ''Region '' = ''Region ''
   \<and> recommendedCharts
        (sanitizeAnalysisResult
           \<lparr> summary = [], columns = [],
             recommendedCharts =
               [\<lparr> chart_id = ''c1'', chart_type = BAR, title = [], description = [],
                  xKey = ''Region '', yKey = ''region'', categoryKey = None \<rparr>],
             insights = [] \<rparr>
           \<lparr> ds_id = [], ds_name = [], data = [[(''region'', Str ''West'')]], rowCount = 1 \<rparr>)
       = []"
  by (simp add: sanitizeAnalysisResult_def sanitizeChart_def findKey_def object_keys_def
        ownEntries_def isArrayIndex_def isDigit_def toLowerCase_def toLowerChar_def)

section \<open>Correlation engine: proofs\<close>

lemma numericColumnsOf_Nil: "numericColumnsOf [] cols = cols"
  by (simp add: numericColumnsOf_def)

lemma calculatePearson_Nil: "calculatePearson h [] ys = Fin 0"
  by (simp add: calculatePearson_def)

lemma isNumber_iff: "isNumber v \<longleftrightarrow> (\<exists>x. v = Num x)"
  by (cases v) (simp_all add: isNumber_def)

lemma variables_calculateCorrelations:
  "variables (calculateCorrelations h rows cols) = numericColumnsOf rows cols"
  by (simp add: calculateCorrelations_def Let_def)

lemma length_matrix:
  "length (matrix (calculateCorrelations h rows cols)) = length (numericColumnsOf rows cols)"
  by (simp add: calculateCorrelations_def Let_def)

lemma length_matrix_row:
  "r \<in> set (matrix (calculateCorrelations h rows cols)) \<Longrightarrow> length r = length (numericColumnsOf rows cols)"
  by (auto simp add: calculateCorrelations_def Let_def)
































text \<open>
  C2 (amendment). When fewer than 2 columns are confirmed numeric, calculateCorrelations
  returns those columns with the 0x0 matrix or the 1x1 matrix [[1]]; it has no error
  channel. The insufficient-data condition is raised by the caller CorrelationHeatmap,
  which renders its placeholder when fewer than 2 variables come back.
\<close>

theorem calculateCorrelations_few_columns:
  assumes "length (numericColumnsOf rows cols) < 2"
  shows "variables (calculateCorrelations h rows cols) = numericColumnsOf rows cols
       \<and> matrix (calculateCorrelations h rows cols)
           = (if numericColumnsOf rows cols = [] then [] else [[Fin 1]])
       \<and> (cols = map col_name (filter (\<lambda>c. col_type c = numeric) profiles)
            \<longrightarrow> CorrelationHeatmap h rows profiles = NotEnoughNumericData)"
proof -
  consider "numericColumnsOf rows cols = []" | c where "numericColumnsOf rows cols = [c]"
    using assms by (cases "numericColumnsOf rows cols") (auto simp: less_Suc_eq length_Suc_conv)
  then have "matrix (calculateCorrelations h rows cols)
           = (if numericColumnsOf rows cols = [] then [] else [[Fin 1]])"
    by cases (simp_all add: calculateCorrelations_def Let_def)
  then show ?thesis
    using assms by (auto simp add: variables_calculateCorrelations CorrelationHeatmap_def Let_def)
qed

theorem calculateCorrelations_few_columns_witness:
  "length (numericColumnsOf [[(''a'', Num (Fin 1)), (''b'', Str ''x'')]] [''a'', ''b'']) < 2
   \<and> matrix (calculateCorrelations blank_host [[(''a'', Num (Fin 1)), (''b'', Str ''x'')]] [''a'', ''b''])
       = [[Fin 1]]
   \<and> CorrelationHeatmap blank_host [[(''a'', Num (Fin 1)), (''b'', Str ''x'')]]
         [\<lparr> col_name = ''a'', col_type = numeric, missingCount = 0, uniqueCount = 1,
             exampleValues = [] \<rparr>,
          \<lparr> col_name = ''b'', col_type = numeric, missingCount = 0, uniqueCount = 1,
             exampleValues = [] \<rparr>]
       = NotEnoughNumericData"
proof -
  have n: "numericColumnsOf [[(''a'', Num (Fin 1)), (''b'', Str ''x'')]] [''a'', ''b''] = [''a'']"
    by (simp add: numericColumnsOf_def obj_get_def isNumber_def)
  then have l: "length (numericColumnsOf [[(''a'', Num (Fin 1)), (''b'', Str ''x'')]] [''a'', ''b'']) < 2"
    by simp
  show ?thesis
    using l n calculateCorrelations_few_columns
      [OF l, of blank_host
         "[\<lparr> col_name = ''a'', col_type = numeric, missingCount = 0, uniqueCount = 1,
              exampleValues = [] \<rparr>,
           \<lparr> col_name = ''b'', col_type = numeric, missingCount = 0, uniqueCount = 1,
              exampleValues = [] \<rparr>]"]
    by simp
qed

text \<open>
  C2 as stated fails: with one numeric column the engine returns the 1x1 matrix, with
  none the 0x0 matrix.
\<close>

theorem calculateCorrelations_few_columns_counterexample:
  "calculateCorrelations blank_host [[(''a'', Num (Fin 1))]] [''a'']
     = \<lparr> variables = [''a''], matrix = [[Fin 1]] \<rparr>
   \<and> calculateCorrelations blank_host [[(''a'', Str ''x'')]] [''a'']
     = \<lparr> variables = [], matrix = [] \<rparr>"
  by (simp add: calculateCorrelations_def numericColumnsOf_def obj_get_def isNumber_def)




text \<open>
  C9. A candidate column is in the variable list exactly when each of the first 50 rows
  (all rows if fewer) holds a number in it; the variable list is the candidate list
  without the other columns, in the same order, and the matrix has one row and one
  column per variable, so an excluded column is absent from the output.
\<close>

theorem calculateCorrelations_numeric_columns:
  "(c \<in> set (variables (calculateCorrelations h rows cols)) \<longleftrightarrow>
      c \<in> set cols \<and> (\<forall>i < min 50 (length rows). \<exists>x. obj_get (rows ! i) c = Num x))
   \<and> variables (calculateCorrelations h rows cols)
       = filter (\<lambda>c. \<forall>r \<in> set (take 50 rows). \<exists>x. obj_get r c = Num x) cols
   \<and> length (matrix (calculateCorrelations h rows cols))
       = length (variables (calculateCorrelations h rows cols))
   \<and> (\<forall>r \<in> set (matrix (calculateCorrelations h rows cols)).
         length r = length (variables (calculateCorrelations h rows cols)))"
proof -
  let ?M = "calculateCorrelations h rows cols"
  have b: "list_all (\<lambda>row. isNumber (obj_get row c)) (take 50 rows)
        \<longleftrightarrow> (\<forall>r \<in> set (take 50 rows). \<exists>x. obj_get r c = Num x)" for c
    by (simp add: list_all_iff isNumber_iff)
  have v: "variables ?M = filter (\<lambda>c. \<forall>r \<in> set (take 50 rows). \<exists>x. obj_get r c = Num x) cols"
    unfolding variables_calculateCorrelations numericColumnsOf_def using b by presburger
  have a: "(\<forall>r \<in> set (take 50 rows). \<exists>x. obj_get r c = Num x)
        \<longleftrightarrow> (\<forall>i < min 50 (length rows). \<exists>x. obj_get (rows ! i) c = Num x)" for c
    unfolding b [symmetric] by (auto simp: list_all_length isNumber_iff)
  have m: "c \<in> set (variables ?M) \<longleftrightarrow>
      c \<in> set cols \<and> (\<forall>i < min 50 (length rows). \<exists>x. obj_get (rows ! i) c = Num x)"
    unfolding v using a by simp
  have l: "length (matrix ?M) = length (variables ?M)"
    by (simp add: variables_calculateCorrelations length_matrix)
  have r: "\<forall>r \<in> set (matrix ?M). length r = length (variables ?M)"
    by (simp add: variables_calculateCorrelations length_matrix_row)
  from m v l r show ?thesis by blast
qed

theorem calculateCorrelations_numeric_columns_witness:
  "variables (calculateCorrelations blank_host
      [[(''a'', Num (Fin 1)), (''b'', Num (Fin 2))], [(''a'', Num (Fin 4)), (''b'', Str ''x'')]]
      [''b'', ''a'']) = [''a'']
   \<and> length (matrix (calculateCorrelations blank_host
      [[(''a'', Num (Fin 1)), (''b'', Num (Fin 2))], [(''a'', Num (Fin 4)), (''b'', Str ''x'')]]
      [''b'', ''a''])) = 1"
  using calculateCorrelations_numeric_columns
    [of "''b''" blank_host
        "[[(''a'', Num (Fin 1)), (''b'', Num (Fin 2))], [(''a'', Num (Fin 4)), (''b'', Str ''x'')]]"
        "[''b'', ''a'']"]
  by (simp add: obj_get_def)

text \<open>
  C10. For an empty row sequence every candidate column is confirmed numeric: the
  variable list is the candidate list, the diagonal is 1 and every other coefficient 0.
\<close>

theorem calculateCorrelations_empty_rows:
  "calculateCorrelations h [] cols =
   \<lparr> variables = cols,
     matrix = map (\<lambda>i. map (\<lambda>j. if i = j then Fin 1 else Fin 0) [0..<length cols]) [0..<length cols] \<rparr>"
proof -
  have confirmed: "numericColumnsOf [] cols = cols"
    by (rule numericColumnsOf_Nil)
  have coefficient: "calculatePearson h (map (\<lambda>d. obj_get d x) []) (map (\<lambda>d. obj_get d y) []) = Fin 0"
    for x y
    by (simp add: calculatePearson_Nil)
  show ?thesis
    unfolding calculateCorrelations_def Let_def confirmed coefficient ..
qed

section \<open>Query engine: proofs\<close>

lemma map_fst_obj_define:
  "map fst (obj_define obj k v) = (if k \<in> fst ` set obj then map fst obj else map fst obj @ [k])"
  by (auto simp: obj_define_def intro!: map_idI)

lemma map_of_obj_define:
  "map_of (obj_define obj k v) = (map_of obj)(k \<mapsto> v)"
proof (cases "k \<in> fst ` set obj")
  case False
  then have "map_of obj k = None" by (simp add: map_of_eq_None_iff)
  with False show ?thesis
    by (auto simp: obj_define_def map_add_def fun_eq_iff split: option.splits)
next
  case True
  have "map_of (map (\<lambda>kv. if fst kv = k then (k, v) else kv) xs) k' =
          (if k' = k \<and> k \<in> fst ` set xs then Some v else map_of xs k')" for xs k'
    by (induction xs) (force simp: image_iff)+
  with True show ?thesis
    by (auto simp: obj_define_def fun_eq_iff)
qed

lemma pushGroup_ok:
  assumes "key \<notin> set objectPrototypeNames"
  shows "\<exists>G'. pushGroup G key v = Inr G'
           \<and> map_of G' = (map_of G)(key \<mapsto> (case map_of G key of Some vs \<Rightarrow> vs | None \<Rightarrow> []) @ [v])
           \<and> map fst G' = (if key \<in> fst ` set G then map fst G else map fst G @ [key])"
proof (cases "map_of G key")
  case None
  then have "key \<notin> fst ` set G" by (simp add: map_of_eq_None_iff)
  with None assms show ?thesis
    by (auto simp: pushGroup_def fun_eq_iff map_add_def split: option.splits)
next
  case (Some vs)
  then have "key \<in> fst ` set G" by (metis map_of_eq_None_iff option.distinct(1))
  with Some show ?thesis
    by (simp add: pushGroup_def map_of_obj_define map_fst_obj_define)
qed

lemma collectGroups_ok:
  assumes "\<forall>r \<in> set rs. groupKey h g r \<notin> set objectPrototypeNames"
  shows "\<exists>G'. collectGroups h g a rs G = Inr G'
           \<and> (\<forall>k. map_of G' k =
                 (if k \<in> groupKey h g ` set rs
                  then Some ((case map_of G k of Some vs \<Rightarrow> vs | None \<Rightarrow> [])
                             @ map (\<lambda>r. coerceNumber (obj_get r a)) (filter (\<lambda>r. groupKey h g r = k) rs))
                  else map_of G k))
           \<and> set (map fst G') = set (map fst G) \<union> groupKey h g ` set rs
           \<and> (distinct (map fst G) \<longrightarrow> distinct (map fst G'))"
  using assms
proof (induction rs arbitrary: G)
  case Nil
  then show ?case by simp
next
  case (Cons r rs)
  let ?k = "groupKey h g r" and ?v = "coerceNumber (obj_get r a)"
  from Cons.prems have nk: "?k \<notin> set objectPrototypeNames" by simp
  from pushGroup_ok [OF nk, of G ?v] obtain G1 where
    p: "pushGroup G ?k ?v = Inr G1"
    and m1: "map_of G1 = (map_of G)(?k \<mapsto> (case map_of G ?k of Some vs \<Rightarrow> vs | None \<Rightarrow> []) @ [?v])"
    and f1: "map fst G1 = (if ?k \<in> fst ` set G then map fst G else map fst G @ [?k])"
    by blast
  from Cons.prems have "\<forall>r \<in> set rs. groupKey h g r \<notin> set objectPrototypeNames" by simp
  from Cons.IH [OF this, of G1] obtain G' where
    c: "collectGroups h g a rs G1 = Inr G'"
    and m: "\<forall>k. map_of G' k =
                 (if k \<in> groupKey h g ` set rs
                  then Some ((case map_of G1 k of Some vs \<Rightarrow> vs | None \<Rightarrow> [])
                             @ map (\<lambda>r. coerceNumber (obj_get r a)) (filter (\<lambda>r. groupKey h g r = k) rs))
                  else map_of G1 k)"
    and s: "set (map fst G') = set (map fst G1) \<union> groupKey h g ` set rs"
    and d: "distinct (map fst G1) \<longrightarrow> distinct (map fst G')"
    by blast
  have c': "collectGroups h g a (r # rs) G = Inr G'"
    using p c by (simp add: groupKey_def)
  have m': "map_of G' k =
                 (if k \<in> groupKey h g ` set (r # rs)
                  then Some ((case map_of G k of Some vs \<Rightarrow> vs | None \<Rightarrow> [])
                             @ map (\<lambda>r. coerceNumber (obj_get r a)) (filter (\<lambda>r. groupKey h g r = k) (r # rs)))
                  else map_of G k)" for k
    using m [rule_format, of k] by (auto simp: m1 filter_empty_conv image_iff)
  have s': "set (map fst G') = set (map fst G) \<union> groupKey h g ` set (r # rs)"
    using s f1 by auto
  have d': "distinct (map fst G) \<longrightarrow> distinct (map fst G')"
    using d f1 by auto
  from c' m' s' d' show ?case by blast
qed













lemma applyFilters_eq:
  "applyFilters h intent rows =
     filter (\<lambda>row. \<forall>f \<in> set (case filters intent of None \<Rightarrow> [] | Some fs \<Rightarrow> fs). filterPasses h row f) rows"
  by (cases "filters intent") (auto simp: applyFilters_def list_all_iff)

lemma queryData_ungrouped:
  assumes "groupBy intent = None \<or> groupBy intent = Some []
         \<or> aggregateColumn intent = None \<or> aggregateColumn intent = Some []
         \<or> aggregateType intent = None"
  shows "queryData h rows intent = Inr (take 50 (applyFilters h intent rows))"
  using assms by (auto simp: queryData_def Let_def split: option.splits)




text \<open>
  Apart from group keys that name a member of \<open>Object.prototype\<close>, the engine
  returns: at most 50 rows, and none when the filter stage leaves none.
\<close>

lemma queryData_returns_without_prototype_keys:
  assumes "\<forall>g. groupBy intent = Some g \<longrightarrow>
             (\<forall>r \<in> set (applyFilters h intent rows). groupKey h g r \<notin> set objectPrototypeNames)"
  shows "\<exists>out. queryData h rows intent = Inr out \<and> length out \<le> 50
           \<and> (applyFilters h intent rows = [] \<longrightarrow> out = [])"
proof (cases "\<exists>g a t. groupBy intent = Some g \<and> aggregateColumn intent = Some a
                \<and> aggregateType intent = Some t \<and> g \<noteq> [] \<and> a \<noteq> []")
  case True
  then obtain g a t where i: "groupBy intent = Some g" "aggregateColumn intent = Some a"
      "aggregateType intent = Some t" "g \<noteq> []" "a \<noteq> []"
    by blast
  with assms have "\<forall>r \<in> set (applyFilters h intent rows). groupKey h g r \<notin> set objectPrototypeNames"
    by simp
  from collectGroups_ok [OF this, of a "[]"] obtain G where
    cg: "collectGroups h g a (applyFilters h intent rows) [] = Inr G"
    and s: "set (map fst G) = groupKey h g ` set (applyFilters h intent rows)"
    by auto
  have "applyFilters h intent rows = [] \<longrightarrow> G = []"
    using s by auto
  then show ?thesis
    using i cg by (auto simp: queryData_def Let_def js_sort_def ownEntries_def)
next
  case False
  then have "queryData h rows intent = Inr (take 50 (applyFilters h intent rows))"
    by (auto simp: queryData_def Let_def split: option.splits)
  then show ?thesis by simp
qed

text \<open>
  C4 fails on the code: a row whose group key names a member of Object.prototype makes
  queryData throw a TypeError.
\<close>

theorem queryData_throws_on_prototype_key:
  "queryData blank_host rows_constructor intent_sum_v_by_cat = Inl TypeError"
  by (simp add: queryData_def intent_sum_v_by_cat_def rows_constructor_def applyFilters_def
        toString_def obj_get_def pushGroup_def objectPrototypeNames_def)

text \<open>
  C5. The filter stage keeps exactly the rows that pass every filter of the intent (all
  rows when there is none); the operator == passes when the string forms of the row's
  value and of the filter value are equal under toLowerCase; an operator outside the six
  known ones passes every row. Without grouping, queryData returns the first 50 rows of
  the filter stage.
\<close>

theorem queryData_filter_stage:
  "applyFilters h intent rows =
     filter (\<lambda>row. \<forall>f \<in> set (case filters intent of None \<Rightarrow> [] | Some fs \<Rightarrow> fs). filterPasses h row f) rows
   \<and> (operator f = ''=='' \<longrightarrow>
        filterPasses h row f =
          (toLowerCase (toString h (obj_get row (column f))) = toLowerCase (toString h (filter_value f))))
   \<and> (operator f \<notin> {''=='', ''>'', ''<'', ''>='', ''<='', ''contains''} \<longrightarrow> filterPasses h row f)
   \<and> (groupBy intent = None \<longrightarrow>
        queryData h rows intent = Inr (take 50 (applyFilters h intent rows)))"
  using applyFilters_eq [of h intent rows] queryData_ungrouped [of intent h rows]
  by (simp add: filterPasses_def Let_def)

theorem queryData_filter_stage_witness:
  "queryData blank_host
     [[(''city'', Str ''Paris''), (''n'', Num (Fin 1))],
      [(''city'', Str ''Rome''), (''n'', Num (Fin 2))],
      [(''city'', Str ''PARIS''), (''n'', Num (Fin 3))]]
     \<lparr> intent_type = query,
       filters = Some [\<lparr> column = ''city'', operator = ''=='', filter_value = Str ''paris'' \<rparr>,
                       \<lparr> column = ''n'', operator = ''between'', filter_value = Num (Fin 0) \<rparr>],
       groupBy = None, aggregateColumn = None, aggregateType = None, chartType = None,
       textResponse = None, intent_title = None \<rparr>
   = Inr [[(''city'', Str ''Paris''), (''n'', Num (Fin 1))],
          [(''city'', Str ''PARIS''), (''n'', Num (Fin 3))]]"
  using queryData_filter_stage [of blank_host
     "\<lparr> intent_type = query,
       filters = Some [\<lparr> column = ''city'', operator = ''=='', filter_value = Str ''paris'' \<rparr>,
                       \<lparr> column = ''n'', operator = ''between'', filter_value = Num (Fin 0) \<rparr>],
       groupBy = None, aggregateColumn = None, aggregateType = None, chartType = None,
       textResponse = None, intent_title = None \<rparr>"
     "[[(''city'', Str ''Paris''), (''n'', Num (Fin 1))],
      [(''city'', Str ''Rome''), (''n'', Num (Fin 2))],
      [(''city'', Str ''PARIS''), (''n'', Num (Fin 3))]]"
     "\<lparr> column = ''n'', operator = ''between'', filter_value = Num (Fin 0) \<rparr>"
     "[]"]
  by (simp add: filterPasses_def toString_def obj_get_def toLowerCase_def toLowerChar_def)

section \<open>Tabular ingestion: proofs\<close>

lemma parseRows_eq:
  "parseRows headers lines acc =
     acc @ map (\<lambda>line. buildRow headers (splitComma line))
             (filter (\<lambda>line. length (splitComma line) = length headers) lines)"
  by (induction lines arbitrary: acc) (simp_all add: Let_def)

lemma stripQuotes_wrapped: "stripQuotes (CHR 0x22 # s @ [CHR 0x22]) = s"
  by (simp add: stripQuotes_def)

lemma map_of_obj_set_other:
  "k \<noteq> k' \<Longrightarrow> map_of (obj_set obj k v) k' = map_of obj k'"
  by (simp add: obj_set_def map_of_obj_define)

lemma map_of_obj_set_same:
  "k \<noteq> ''__proto__'' \<Longrightarrow> map_of (obj_set obj k v) k = Some v"
  by (simp add: obj_set_def map_of_obj_define)

lemma map_of_foldl_obj_set_other:
  "k \<notin> fst ` set ps \<Longrightarrow>
   map_of (foldl (\<lambda>row hf. obj_set row (fst hf) (parseCell (snd hf))) obj ps) k = map_of obj k"
proof (induction ps arbitrary: obj)
  case Nil
  then show ?case by simp
next
  case (Cons p ps)
  then have "k \<noteq> fst p" and "k \<notin> fst ` set ps" by auto
  with Cons.IH [of "obj_set obj (fst p) (parseCell (snd p))"] show ?case
    by (simp add: map_of_obj_set_other)
qed

lemma map_of_buildRow:
  assumes "distinct headers" and "''__proto__'' \<notin> set headers"
    and "length cells = length headers" and "j < length headers"
  shows "map_of (foldl (\<lambda>row hf. obj_set row (fst hf) (parseCell (snd hf))) obj (zip headers cells))
           (headers ! j) = Some (parseCell (cells ! j))"
  using assms
proof (induction headers arbitrary: cells obj j)
  case Nil
  then show ?case by simp
next
  case (Cons h0 hds)
  then obtain f fs where cells: "cells = f # fs" and len: "length fs = length hds"
    by (cases cells) auto
  show ?case
  proof (cases j)
    case 0
    have "h0 \<notin> fst ` set (zip hds fs)"
      using Cons.prems(1) by (auto dest: set_zip_leftD)
    then have "map_of (foldl (\<lambda>row hf. obj_set row (fst hf) (parseCell (snd hf)))
                        (obj_set obj h0 (parseCell f)) (zip hds fs)) h0
             = map_of (obj_set obj h0 (parseCell f)) h0"
      by (rule map_of_foldl_obj_set_other)
    also have "\<dots> = Some (parseCell f)"
      using Cons.prems(2) by (auto simp: map_of_obj_set_same)
    finally show ?thesis by (simp add: 0 cells)
  next
    case (Suc j')
    with Cons.prems have "distinct hds" "''__proto__'' \<notin> set hds" "j' < length hds" by auto
    from Cons.IH [OF this(1,2) len this(3), of "obj_set obj h0 (parseCell f)"]
    show ?thesis by (simp add: Suc cells)
  qed
qed

lemma obj_get_buildRow:
  assumes "distinct headers" and "''__proto__'' \<notin> set headers"
    and "length cells = length headers" and "j < length headers"
  shows "obj_get (buildRow headers cells) (headers ! j) = parseCell (cells ! j)"
  using map_of_buildRow [OF assms, of "[]"] by (simp add: obj_get_def buildRow_def)

text \<open>
  C6. For a text with at least one non-blank line, parseCSV returns a dataset whose total
  row count is the number N of accepted data lines (the non-blank lines after the header
  with as many fields as the header) and whose rows are those of the first 3000 accepted
  lines: N rows when N is at most 3000, 3000 rows when N is larger.
\<close>

theorem parseCSV_row_counts:
  assumes "csvLines text \<noteq> []"
  shows "\<exists>ds. parseCSV uuid text name = Inr ds
           \<and> rowCount ds = length (acceptedLines text)
           \<and> data ds = take 3000 (map (\<lambda>line. buildRow (csvHeaders (csvLines text)) (splitComma line))
                                      (acceptedLines text))
           \<and> (length (acceptedLines text) \<le> 3000 \<longrightarrow> length (data ds) = length (acceptedLines text))
           \<and> (length (acceptedLines text) > 3000 \<longrightarrow> length (data ds) = 3000)"
  using assms by (simp add: parseCSV_def Let_def parseRows_eq acceptedLines_def)

theorem parseCSV_row_counts_witness:
  "\<exists>ds. parseCSV ''id'' csv_example ''f.csv'' = Inr ds \<and> rowCount ds = 2 \<and> length (data ds) = 2"
proof -
  have l: "csvLines csv_example = [''a,b'', ''1,2'', ''3'', ''4,5'']"
    by (simp add: csv_example_def csvLines_def trim_def isJsSpace_def)
  have h: "csvHeaders [''a,b'', ''1,2'', ''3'', ''4,5''] = [''a'', ''b'']"
    by (simp add: csvHeaders_def trim_def isJsSpace_def stripQuotes_def charCodeAt0_def)
  have a: "acceptedLines csv_example = [''1,2'', ''4,5'']"
    by (simp add: acceptedLines_def l h)
  have n: "csvLines csv_example \<noteq> []"
    by (simp add: l)
  from parseCSV_row_counts [OF n, of "''id''" "''f.csv''"] show ?thesis
    unfolding a by auto
qed

text \<open>
  C7 (amendment). The value of a cell is computed from the field trimmed and then
  stripped of a double quote at its start and of a double quote at its end, each if
  present: a field wrapped in quotes loses exactly one layer, a lone quote at either end
  goes too, and a field with no quote at either end is unchanged. If the result is non-empty and reads fully as a number, the
  number is stored, otherwise the result is stored as a string; "42" becomes 42, "42abc"
  stays a string and the empty string stays empty. With distinct headers other than
  __proto__, the row of an accepted line holds this value under the cell's header.
\<close>

theorem parseCell_coercion:
  "parseCell field =
     (if stripQuotes (trim field) \<noteq> [] \<and> stringToNumber (stripQuotes (trim field)) \<noteq> NaN
      then Num (stringToNumber (stripQuotes (trim field)))
      else Str (stripQuotes (trim field)))
   \<and> stripQuotes (CHR 0x22 # s @ [CHR 0x22]) = s
   \<and> (s = [] \<or> (hd s \<noteq> CHR 0x22 \<and> last s \<noteq> CHR 0x22) \<longrightarrow> stripQuotes s = s)
   \<and> (s = [] \<or> last s \<noteq> CHR 0x22 \<longrightarrow> stripQuotes (CHR 0x22 # s) = s)
   \<and> (s = [] \<or> hd s \<noteq> CHR 0x22 \<longrightarrow> stripQuotes (s @ [CHR 0x22]) = s)
   \<and> parseCell ''42'' = Num (Fin 42)
   \<and> parseCell ''42abc'' = Str ''42abc''
   \<and> parseCell [] = Str []
   \<and> (distinct headers \<and> ''__proto__'' \<notin> set headers \<and> length cells = length headers
        \<and> j < length headers
      \<longrightarrow> obj_get (buildRow headers cells) (headers ! j) = parseCell (cells ! j))"
proof -
  have 1: "parseCell ''42'' = Num (Fin 42)" by code_simp
  have 2: "parseCell ''42abc'' = Str ''42abc''" by code_simp
  have 3: "parseCell [] = Str []" by code_simp
  have 4: "s = [] \<or> (hd s \<noteq> CHR 0x22 \<and> last s \<noteq> CHR 0x22) \<longrightarrow> stripQuotes s = s"
    by (auto simp: stripQuotes_def)
  have 5: "s = [] \<or> last s \<noteq> CHR 0x22 \<longrightarrow> stripQuotes (CHR 0x22 # s) = s"
    by (auto simp: stripQuotes_def)
  have 6: "s = [] \<or> hd s \<noteq> CHR 0x22 \<longrightarrow> stripQuotes (s @ [CHR 0x22]) = s"
    by (cases s) (auto simp: stripQuotes_def)
  show ?thesis
    using 1 2 3 4 5 6 obj_get_buildRow [of headers cells j]
    by (simp add: parseCell_def Let_def isNaN_def stripQuotes_wrapped)
qed

theorem parseCell_coercion_witness:
  "obj_get (buildRow [''name'', ''qty''] ['' Ann '', ''42'']) ''qty'' = Num (Fin 42)
   \<and> obj_get (buildRow [''name'', ''qty''] ['' Ann '', ''42'']) ''name'' = Str ''Ann''"
proof -
  have a: "parseCell ''42'' = Num (Fin 42)" by code_simp
  have b: "parseCell '' Ann '' = Str ''Ann''" by code_simp
  have h: "distinct [''name'', ''qty''] \<and> ''__proto__'' \<notin> set [''name'', ''qty'']
           \<and> length ['' Ann '', ''42''] = length [''name'', ''qty'']" by simp
  from parseCell_coercion [of "[]" "[]" "[''name'', ''qty'']" "['' Ann '', ''42'']" 1]
       parseCell_coercion [of "[]" "[]" "[''name'', ''qty'']" "['' Ann '', ''42'']" 0] h a b
  show ?thesis by simp
qed

text \<open>
  C7 as stated fails for a quote that wraps nothing: the cell 5" is stored as the number
  5, and the cell "x as the string x.
\<close>

theorem parseCell_lone_quote_counterexample:
  "parseCell [CHR ''5'', CHR 0x22] = Num (Fin 5)
   \<and> parseCell [CHR 0x22, CHR ''x''] = Str ''x''"
  by code_simp

end
